theory Spec2Isabelle
  imports Complex_Main
begin

section \<open>Dashboard client: \<^verbatim>\<open>app/static/js/dashboard.js\<close>\<close>

text \<open>
  The script keeps module-level state (four chart objects, the history buffer and its
  bound), reads and writes DOM elements by id, and reacts to events. Each source function
  becomes a function on an explicit page state. JavaScript numbers are modelled by
  \<^typ>\<open>real\<close> (measurements) and \<^typ>\<open>nat\<close> (counts, whole seconds): rounding of
  IEEE doubles, \<open>NaN\<close> and integers beyond \<open>2^53\<close> are outside the model.
\<close>

subsection \<open>Numbers as text\<close>

text \<open>
  A template literal \<^verbatim>\<open>`${n}`\<close> of a non-negative whole number below \<open>10^21\<close>
  is its decimal expansion.
\<close>

definition digit :: "nat \<Rightarrow> char" where
  "digit d = ''0123456789'' ! d"

function numToString :: "nat \<Rightarrow> string" where
  "numToString n = (if n < 10 then [digit n] else numToString (n div 10) @ [digit (n mod 10)])"
  by pat_completeness auto
termination
  by (relation "measure (\<lambda>n. n)") auto

declare numToString.simps [simp del]

subsection \<open>Uptime formatting\<close>

text \<open>
  \<^verbatim>\<open>
  function formatUptime(seconds) {
      const days = Math.floor(seconds / 86400);
      const hours = Math.floor((seconds % 86400) / 3600);
      const minutes = Math.floor((seconds % 3600) / 60);
      if (days > 0) return `${days}d ${hours}h`;
      if (hours > 0) return `${hours}h ${minutes}m`;
      return `${minutes}m`;
  }
  \<close>
\<close>

definition formatUptime :: "nat \<Rightarrow> string" where
  "formatUptime seconds =
     (let days = seconds div 86400;
          hours = (seconds mod 86400) div 3600;
          minutes = (seconds mod 3600) div 60
      in if days > 0 then numToString days @ ''d '' @ numToString hours @ ''h''
         else if hours > 0 then numToString hours @ ''h '' @ numToString minutes @ ''m''
         else numToString minutes @ ''m'')"

subsection \<open>Telemetry snapshot\<close>

text \<open>
  The JSON body of \<^verbatim>\<open>/api/dashboard-data\<close>, with the fields the script reads. The
  shape is taken as given (a body of another shape is outside the model);
  \<^verbatim>\<open>app.cpu_percent\<close> may be absent.
\<close>

record system_info =
  cpu_percent :: real
  cpu_count :: nat
  cpu_freq_current :: real
  memory_percent :: real
  memory_used_gb :: real
  memory_total_gb :: real
  disk_percent :: real
  disk_used_gb :: real
  disk_total_gb :: real
  network_bytes_sent :: real
  network_bytes_recv :: real
  hostname :: string
  platform :: string
  python_version :: string
  uptime_seconds :: nat

record app_info =
  total_users :: nat
  total_requests :: nat
  threads_count :: nat
  memory_usage_mb :: real
  app_cpu_percent :: "real option"
  active_connections :: real
  app_uptime_seconds :: nat

record snapshot =
  system :: system_info
  app :: app_info

text \<open>
  Printing a fractional number is the host's business (\<^verbatim>\<open>toFixed(1)\<close> and the
  conversion of a number inside a template literal): both are parameters of the model.
\<close>

record number_format =
  toFixed1 :: "real \<Rightarrow> string"
  toText :: "real \<Rightarrow> string"

subsection \<open>Page state\<close>

record historyPoint =
  timestamp :: string
  cpu :: real
  memory :: real
  disk :: real
  app_memory :: real
  app_cpu :: real
  connections :: real
  network_sent :: real
  network_recv :: real

text \<open>
  A Chart.js object, reduced to what the script writes: \<^verbatim>\<open>data.labels\<close> and the
  \<^verbatim>\<open>data\<close> array of each entry of \<^verbatim>\<open>data.datasets\<close>. Styling options never
  change after construction, and \<^verbatim>\<open>update()\<close> only redraws.
\<close>

record chart =
  labels :: "string list"
  datasets :: "real list list"

text \<open>
  An element found by \<^verbatim>\<open>getElementById\<close>: what was last written to it
  (\<^verbatim>\<open>textContent\<close> or \<^verbatim>\<open>innerHTML\<close>) and its class.
\<close>

datatype content = Text string | Html string

record element =
  content :: content
  className :: string

record toast =
  toastClass :: string
  toastBody :: string

datatype log_entry = DataReceived snapshot | DashboardError | TrafficError

datatype callback = RefreshDashboard | ReleaseTempData nat

text \<open>
  The module-level variables, the part of the document the script touches, the console,
  the pending timers and the GET requests issued so far.
\<close>

record page =
  performanceChart :: "chart option"
  resourceChart :: "chart option"
  appPerformanceChart :: "chart option"
  networkChart :: "chart option"
  systemHistory :: "historyPoint list"
  maxHistoryPoints :: nat
  elements :: "string \<rightharpoonup> element"
  toastContainer :: "toast list option"
  console :: "log_entry list"
  timers :: "(nat \<times> callback) list"
  fetched :: "string list"

text \<open>The state when the script has been loaded into a document with elements \<open>els\<close>.\<close>

definition loaded :: "(string \<rightharpoonup> element) \<Rightarrow> page" where
  "loaded els =
     \<lparr>performanceChart = None, resourceChart = None, appPerformanceChart = None,
      networkChart = None, systemHistory = [], maxHistoryPoints = 50, elements = els,
      toastContainer = None, console = [], timers = [], fetched = []\<rparr>"

text \<open>
  A function that can be left by an exception returns the state either way: \<open>Done\<close> at
  normal completion, \<open>Thrown\<close> with the state at the moment the exception leaves it.
\<close>

datatype 'a outcome = Done 'a | Thrown 'a

definition andThen :: "'a outcome \<Rightarrow> ('a \<Rightarrow> 'a outcome) \<Rightarrow> 'a outcome" where
  "andThen r f = (case r of Done s \<Rightarrow> f s | Thrown s \<Rightarrow> Thrown s)"

fun state_of :: "'a outcome \<Rightarrow> 'a" where
  "state_of (Done s) = s"
| "state_of (Thrown s) = s"

subsection \<open>Notifications\<close>

text \<open>
  \<^verbatim>\<open>showToast(message, type)\<close>: the container is looked up, or created on first use,
  and the new toast is appended to it. The container is kept apart from the other
  elements; the later removal of a hidden toast is an event of its own.
\<close>

definition createToastContainer :: "page \<Rightarrow> page" where
  "createToastContainer s = s\<lparr>toastContainer := Some []\<rparr>"

definition showToast :: "string \<Rightarrow> string \<Rightarrow> page \<Rightarrow> page" where
  "showToast msg type s =
     (let s1 = (case toastContainer s of None \<Rightarrow> createToastContainer s | Some _ \<Rightarrow> s);
          t = \<lparr>toastClass = ''toast align-items-center text-white bg-''
                  @ (if type = ''error'' then ''danger'' else type) @ '' border-0'',
               toastBody = msg\<rparr>
      in s1\<lparr>toastContainer := map_option (\<lambda>c. c @ [t]) (toastContainer s1)\<rparr>)"

subsection \<open>Chart construction\<close>

text \<open>Each setup function returns early when its canvas is missing.\<close>

definition setupEnhancedPerformanceChart :: "page \<Rightarrow> page" where
  "setupEnhancedPerformanceChart s =
     (case elements s ''performanceChart'' of
        None \<Rightarrow> s
      | Some ctx \<Rightarrow> s\<lparr>performanceChart := Some \<lparr>labels = [], datasets = [[], [], [], []]\<rparr>\<rparr>)"

definition setupEnhancedResourceChart :: "page \<Rightarrow> page" where
  "setupEnhancedResourceChart s =
     (case elements s ''resourceChart'' of
        None \<Rightarrow> s
      | Some ctx \<Rightarrow>
          s\<lparr>resourceChart :=
              Some \<lparr>labels = [''CPU Usage'', ''Memory Usage'', ''Disk Usage'', ''Available''],
                    datasets = [[0, 0, 0, 100]]\<rparr>\<rparr>)"

definition setupAppPerformanceChart :: "page \<Rightarrow> page" where
  "setupAppPerformanceChart s =
     (case elements s ''appPerformanceChart'' of
        None \<Rightarrow> s
      | Some ctx \<Rightarrow> s\<lparr>appPerformanceChart := Some \<lparr>labels = [], datasets = [[], []]\<rparr>\<rparr>)"

definition setupNetworkChart :: "page \<Rightarrow> page" where
  "setupNetworkChart s =
     (case elements s ''networkChart'' of
        None \<Rightarrow> s
      | Some ctx \<Rightarrow> s\<lparr>networkChart := Some \<lparr>labels = [], datasets = [[], []]\<rparr>\<rparr>)"

subsection \<open>Metric cards and system information\<close>

text \<open>
  \<^verbatim>\<open>if (el) el.textContent = v\<close>: a missing element is skipped.
\<close>

definition setText :: "string \<Rightarrow> string \<Rightarrow> page \<Rightarrow> page" where
  "setText ident v s =
     (case elements s ident of
        None \<Rightarrow> s
      | Some el \<Rightarrow> s\<lparr>elements := (elements s)(ident \<mapsto> el\<lparr>content := Text v\<rparr>)\<rparr>)"

definition upArrow :: string where
  "upArrow = [CHR 0xE2, CHR 0x86, CHR 0x91]"

definition downArrow :: string where
  "downArrow = [CHR 0xE2, CHR 0x86, CHR 0x93]"

definition updateEnhancedMetricCards :: "number_format \<Rightarrow> snapshot \<Rightarrow> page \<Rightarrow> page" where
  "updateEnhancedMetricCards fmt data s =
     (let sys = system data; ap = app data;
          s1 = setText ''cpu-usage'' (toFixed1 fmt (cpu_percent sys) @ ''%'') s;
          s2 = setText ''cpu-details''
                 (numToString (cpu_count sys) @ '' cores @ ''
                    @ toFixed1 fmt (cpu_freq_current sys / 1000) @ '' GHz'') s1;
          s3 = setText ''memory-usage'' (toFixed1 fmt (memory_percent sys) @ ''%'') s2;
          s4 = setText ''memory-details''
                 (toText fmt (memory_used_gb sys) @ '' / '' @ toText fmt (memory_total_gb sys)
                    @ '' GB'') s3;
          s5 = setText ''disk-usage'' (toFixed1 fmt (disk_percent sys) @ ''%'') s4;
          s6 = setText ''disk-details''
                 (toText fmt (disk_used_gb sys) @ '' / '' @ toText fmt (disk_total_gb sys)
                    @ '' GB'') s5;
          s7 = (if elements s6 ''network-usage'' \<noteq> None \<and> elements s6 ''network-details'' \<noteq> None
                then
                  (let networkMB = (network_bytes_sent sys + network_bytes_recv sys) / (1024 * 1024)
                   in setText ''network-details''
                        (upArrow @ toFixed1 fmt (network_bytes_sent sys / (1024 * 1024)) @ '' ''
                           @ downArrow @ toFixed1 fmt (network_bytes_recv sys / (1024 * 1024)))
                        (setText ''network-usage'' (toFixed1 fmt networkMB @ '' MB'') s6))
                else s6);
          s8 = setText ''total-users'' (numToString (total_users ap)) s7;
          s9 = setText ''total-requests'' (numToString (total_requests ap)) s8
      in setText ''requests-details'' (numToString (threads_count ap) @ '' threads'') s9)"

definition updateSystemInformation :: "snapshot \<Rightarrow> page \<Rightarrow> page" where
  "updateSystemInformation data s =
     (let s1 = setText ''hostname'' (hostname (system data)) s;
          s2 = setText ''platform'' (platform (system data)) s1;
          s3 = setText ''python-version'' (''v'' @ python_version (system data)) s2;
          s4 = setText ''system-uptime'' (formatUptime (uptime_seconds (system data))) s3
      in setText ''app-uptime'' (formatUptime (app_uptime_seconds (app data))) s4)"

subsection \<open>History recorder\<close>

text \<open>
  \<^verbatim>\<open>
  function storeSystemHistory(data) {
      const timestamp = new Date().toLocaleTimeString();
      const historyPoint = { timestamp, cpu: data.system.cpu_percent, ...,
          app_cpu: data.app.cpu_percent || 0, ... };
      systemHistory.push(historyPoint);
      if (systemHistory.length > maxHistoryPoints) {
          systemHistory.shift();
      }
  }
  \<close>
  The clock reading is an input. \<^verbatim>\<open>shift()\<close> removes the first entry.
\<close>

definition newHistoryPoint :: "string \<Rightarrow> snapshot \<Rightarrow> historyPoint" where
  "newHistoryPoint now data =
     \<lparr>timestamp = now,
      cpu = cpu_percent (system data),
      memory = memory_percent (system data),
      disk = disk_percent (system data),
      app_memory = memory_usage_mb (app data),
      app_cpu = (case app_cpu_percent (app data) of None \<Rightarrow> 0 | Some v \<Rightarrow> v),
      connections = active_connections (app data),
      network_sent = network_bytes_sent (system data),
      network_recv = network_bytes_recv (system data)\<rparr>"

definition shift :: "'a list \<Rightarrow> 'a list" where
  "shift xs = (case xs of [] \<Rightarrow> [] | x # rest \<Rightarrow> rest)"

definition storeSystemHistory :: "string \<Rightarrow> snapshot \<Rightarrow> page \<Rightarrow> page" where
  "storeSystemHistory now data s =
     (let pushed = systemHistory s @ [newHistoryPoint now data]
      in if length pushed > maxHistoryPoints s
         then s\<lparr>systemHistory := shift pushed\<rparr>
         else s\<lparr>systemHistory := pushed\<rparr>)"

text \<open>Recording a sequence of snapshots, each with the clock reading of its moment.\<close>

fun recordAll :: "(string \<times> snapshot) list \<Rightarrow> page \<Rightarrow> page" where
  "recordAll [] s = s"
| "recordAll ((now, data) # rest) s = recordAll rest (storeSystemHistory now data s)"

subsection \<open>Chart renderer\<close>

text \<open>
  \<^verbatim>\<open>chart.data.datasets[i].data = v\<close> throws a TypeError when the chart has no
  dataset \<open>i\<close>; the assignments made before it stay.
\<close>

fun assignData :: "(nat \<times> real list) list \<Rightarrow> chart \<Rightarrow> chart outcome" where
  "assignData [] c = Done c"
| "assignData ((i, v) # rest) c =
     (if i < length (datasets c) then assignData rest (c\<lparr>datasets := (datasets c)[i := v]\<rparr>)
      else Thrown c)"

definition redrawPerformance :: "page \<Rightarrow> page outcome" where
  "redrawPerformance s =
     (case performanceChart s of
        None \<Rightarrow> Done s
      | Some c \<Rightarrow>
          if length (systemHistory s) > 0 then
            (let h = systemHistory s in
             case assignData [(0, map cpu h), (1, map memory h), (2, map disk h),
                              (3, map app_memory h)] (c\<lparr>labels := map timestamp h\<rparr>) of
               Done c' \<Rightarrow> Done (s\<lparr>performanceChart := Some c'\<rparr>)
             | Thrown c' \<Rightarrow> Thrown (s\<lparr>performanceChart := Some c'\<rparr>))
          else Done s)"

definition redrawResource :: "number_format \<Rightarrow> snapshot \<Rightarrow> page \<Rightarrow> page outcome" where
  "redrawResource fmt data s =
     (case resourceChart s of
        None \<Rightarrow> Done s
      | Some c \<Rightarrow>
          (let sys = system data;
               total = cpu_percent sys + memory_percent sys + disk_percent sys;
               available = max 0 (300 - total)
           in case assignData [(0, [cpu_percent sys, memory_percent sys, disk_percent sys,
                                     available])] c of
                Thrown c' \<Rightarrow> Thrown (s\<lparr>resourceChart := Some c'\<rparr>)
              | Done c' \<Rightarrow>
                  Done (setText ''resource-disk'' (toFixed1 fmt (disk_percent sys) @ ''%'')
                    (setText ''resource-memory'' (toFixed1 fmt (memory_percent sys) @ ''%'')
                      (setText ''resource-cpu'' (toFixed1 fmt (cpu_percent sys) @ ''%'')
                        (s\<lparr>resourceChart := Some c'\<rparr>))))))"

definition redrawAppPerformance :: "page \<Rightarrow> page outcome" where
  "redrawAppPerformance s =
     (case appPerformanceChart s of
        None \<Rightarrow> Done s
      | Some c \<Rightarrow>
          if length (systemHistory s) > 0 then
            (let h = systemHistory s in
             case assignData [(0, map app_cpu h), (1, map connections h)]
                    (c\<lparr>labels := map timestamp h\<rparr>) of
               Done c' \<Rightarrow> Done (s\<lparr>appPerformanceChart := Some c'\<rparr>)
             | Thrown c' \<Rightarrow> Thrown (s\<lparr>appPerformanceChart := Some c'\<rparr>))
          else Done s)"

definition redrawNetwork :: "page \<Rightarrow> page outcome" where
  "redrawNetwork s =
     (case networkChart s of
        None \<Rightarrow> Done s
      | Some c \<Rightarrow>
          if length (systemHistory s) > 0 then
            (let h = systemHistory s in
             case assignData [(0, map network_sent h), (1, map network_recv h)]
                    (c\<lparr>labels := map timestamp h\<rparr>) of
               Done c' \<Rightarrow> Done (s\<lparr>networkChart := Some c'\<rparr>)
             | Thrown c' \<Rightarrow> Thrown (s\<lparr>networkChart := Some c'\<rparr>))
          else Done s)"

text \<open>
  \<^verbatim>\<open>updateAllCharts(data)\<close>: the four blocks in the order of the source; the resource
  block is the one that reads the snapshot rather than the history.
  \<^verbatim>\<open>
  if (resourceChart) {
      const total = data.system.cpu_percent + data.system.memory_percent + data.system.disk_percent;
      const available = Math.max(0, 300 - total);
      resourceChart.data.datasets[0].data = [cpu_percent, memory_percent, disk_percent, available];
      ...
  \<close>
\<close>

definition updateAllCharts :: "number_format \<Rightarrow> snapshot \<Rightarrow> page \<Rightarrow> page outcome" where
  "updateAllCharts fmt data s =
     andThen (andThen (andThen (redrawPerformance s) (redrawResource fmt data))
                redrawAppPerformance) redrawNetwork"

subsection \<open>Main refresh\<close>

text \<open>
  \<^verbatim>\<open>updateEnhancedDashboard\<close> is asynchronous. Its synchronous prefix issues the GET;
  the rest runs when the response has arrived and its body has been parsed, or when one
  of the two has failed. A reply is what the two awaits deliver.
\<close>

datatype 'a reply = NetworkError | BadJson | Json 'a

definition setBadge :: "string \<Rightarrow> string \<Rightarrow> page \<Rightarrow> page" where
  "setBadge html cls s =
     (case elements s ''status-badge'' of
        None \<Rightarrow> s
      | Some statusBadge \<Rightarrow>
          s\<lparr>elements := (elements s)(''status-badge'' \<mapsto> \<lparr>content = Html html, className = cls\<rparr>)\<rparr>)"

definition healthyBadge :: "page \<Rightarrow> page" where
  "healthyBadge = setBadge ''<i class=\"bi bi-check-circle\"></i> System Healthy'' ''badge bg-success fs-6''"

definition connectionErrorBadge :: "page \<Rightarrow> page" where
  "connectionErrorBadge =
     setBadge ''<i class=\"bi bi-exclamation-triangle\"></i> Connection Error'' ''badge bg-danger fs-6''"

definition updateEnhancedDashboard_begin :: "page \<Rightarrow> page" where
  "updateEnhancedDashboard_begin s = s\<lparr>fetched := fetched s @ [''/api/dashboard-data'']\<rparr>"

definition dashboardCatch :: "page \<Rightarrow> page" where
  "dashboardCatch s = connectionErrorBadge (s\<lparr>console := console s @ [DashboardError]\<rparr>)"

definition updateEnhancedDashboard :: "number_format \<Rightarrow> snapshot reply \<Rightarrow> string \<Rightarrow> page \<Rightarrow> page" where
  "updateEnhancedDashboard fmt r now s =
     (case r of
        Json data \<Rightarrow>
          (let s1 = s\<lparr>console := console s @ [DataReceived data]\<rparr>;
               s2 = updateEnhancedMetricCards fmt data s1;
               s3 = updateSystemInformation data s2;
               s4 = storeSystemHistory now data s3
           in case updateAllCharts fmt data s4 of
                Done s5 \<Rightarrow> healthyBadge s5
              | Thrown s5 \<Rightarrow> dashboardCatch s5)
      | NetworkError \<Rightarrow> dashboardCatch s
      | BadJson \<Rightarrow> dashboardCatch s)"

definition initializeEnhancedDashboard :: "page \<Rightarrow> page" where
  "initializeEnhancedDashboard s =
     updateEnhancedDashboard_begin
       (setupNetworkChart (setupAppPerformanceChart
         (setupEnhancedResourceChart (setupEnhancedPerformanceChart s))))"

subsection \<open>Demo actions\<close>

text \<open>
  A click handler finds the control that was clicked in \<^verbatim>\<open>event.target\<close>. Every
  handler takes that control and the page and returns both. An asynchronous handler is
  split at its await: \<open>f_begin\<close> runs to the await and returns what the continuation
  keeps (the saved label), \<open>f_resume\<close> runs from the await to the end, given how the
  awaited promises settled, and \<open>f\<close> is one run with nothing in between. A promise that
  never settles never resumes the handler.
\<close>

record control =
  innerHTML :: string
  disabled :: bool

datatype settled = Fulfilled | Rejected

text \<open>\<^verbatim>\<open>p.catch(() => {})\<close> fulfils whatever \<open>p\<close> does.\<close>

fun catchIgnore :: "settled \<Rightarrow> settled" where
  "catchIgnore Fulfilled = Fulfilled"
| "catchIgnore Rejected = Fulfilled"

text \<open>\<^verbatim>\<open>Promise.all\<close> rejects as soon as one member rejects.\<close>

fun promiseAll :: "settled list \<Rightarrow> settled" where
  "promiseAll [] = Fulfilled"
| "promiseAll (Fulfilled # ps) = promiseAll ps"
| "promiseAll (Rejected # ps) = Rejected"

text \<open>
  \<^verbatim>\<open>
  for (let i = 0; i < count; i++) {
      promises.push(fetch('/api/health').catch(() => {}));
      if (i % 5 === 0) promises.push(fetch('/api/metrics').catch(() => {}));
      if (i % 10 === 0) promises.push(fetch('/api/users').catch(() => {}));
  }
  \<close>
  The loop, returning the requests in the order they are issued.
\<close>

function trafficLoop :: "nat \<Rightarrow> nat \<Rightarrow> string list \<Rightarrow> string list" where
  "trafficLoop i count promises =
     (if i < count then
        (let p1 = promises @ [''/api/health''];
             p2 = (if i mod 5 = 0 then p1 @ [''/api/metrics''] else p1);
             p3 = (if i mod 10 = 0 then p2 @ [''/api/users''] else p2)
         in trafficLoop (i + 1) count p3)
      else promises)"
  by pat_completeness auto
termination
  by (relation "measure (\<lambda>(i, count, promises). count - i)") auto

declare trafficLoop.simps [simp del]

definition generateTraffic_begin :: "nat \<Rightarrow> control \<Rightarrow> page \<Rightarrow> string \<times> control \<times> page" where
  "generateTraffic_begin count button s =
     (let originalText = innerHTML button;
          b1 = button\<lparr>innerHTML := ''<span class=\"loading-spinner\"></span> Generating Traffic...'',
                      disabled := True\<rparr>;
          s1 = showToast (''Firing '' @ numToString count @ '' requests...'') ''info'' s
      in (originalText, b1, s1\<lparr>fetched := fetched s1 @ trafficLoop 0 count []\<rparr>))"

definition generateTraffic_resume ::
    "nat \<Rightarrow> string \<Rightarrow> settled list \<Rightarrow> control \<Rightarrow> page \<Rightarrow> control \<times> page" where
  "generateTraffic_resume count originalText fetches button s =
     (let s1 = (case promiseAll (map catchIgnore fetches) of
                  Fulfilled \<Rightarrow>
                    (let s' = showToast (numToString count @ '' requests completed!'') ''success'' s
                     in s'\<lparr>timers := timers s' @ [(500, RefreshDashboard)]\<rparr>)
                | Rejected \<Rightarrow>
                    (let s' = showToast ''Error generating traffic'' ''error'' s
                     in s'\<lparr>console := console s' @ [TrafficError]\<rparr>))
      in (button\<lparr>innerHTML := originalText, disabled := False\<rparr>, s1))"

definition generateTraffic :: "nat \<Rightarrow> settled list \<Rightarrow> control \<Rightarrow> page \<Rightarrow> control \<times> page" where
  "generateTraffic count fetches button s =
     (case generateTraffic_begin count button s of
        (originalText, b1, s1) \<Rightarrow> generateTraffic_resume count originalText fetches b1 s1)"

text \<open>
  \<^verbatim>\<open>
  async function simulateWork() {
      const button = event.target;
      const originalText = button.innerHTML;
      button.innerHTML = '<span class="loading-spinner"></span> Working...';
      button.disabled = true;
      try {
          const response = await fetch('/api/simulate-work');
          const result = await response.json();
          showToast('Work simulation completed!', 'success');
      } catch (error) {
          showToast('Error simulating work', 'error');
      } finally {
          button.innerHTML = originalText;
          button.disabled = false;
      }
  }
  \<close>
\<close>

definition simulateWork_begin :: "control \<Rightarrow> page \<Rightarrow> string \<times> control \<times> page" where
  "simulateWork_begin button s =
     (let originalText = innerHTML button;
          b1 = button\<lparr>innerHTML := ''<span class=\"loading-spinner\"></span> Working...'',
                      disabled := True\<rparr>
      in (originalText, b1, s\<lparr>fetched := fetched s @ [''/api/simulate-work'']\<rparr>))"

definition simulateWork_resume :: "string \<Rightarrow> unit reply \<Rightarrow> control \<Rightarrow> page \<Rightarrow> control \<times> page" where
  "simulateWork_resume originalText r button s =
     (let s1 = (case r of
                  Json result \<Rightarrow> showToast ''Work simulation completed!'' ''success'' s
                | NetworkError \<Rightarrow> showToast ''Error simulating work'' ''error'' s
                | BadJson \<Rightarrow> showToast ''Error simulating work'' ''error'' s)
      in (button\<lparr>innerHTML := originalText, disabled := False\<rparr>, s1))"

definition simulateWork :: "unit reply \<Rightarrow> control \<Rightarrow> page \<Rightarrow> control \<times> page" where
  "simulateWork r button s =
     (case simulateWork_begin button s of
        (originalText, b1, s1) \<Rightarrow> simulateWork_resume originalText r b1 s1)"

text \<open>
  \<^verbatim>\<open>stressTest\<close>: five GETs of the work simulation, awaited together with no
  \<^verbatim>\<open>catch\<close> on the members.
\<close>

definition stressTest_begin :: "control \<Rightarrow> page \<Rightarrow> string \<times> control \<times> page" where
  "stressTest_begin button s =
     (let originalText = innerHTML button;
          b1 = button\<lparr>innerHTML := ''<span class=\"loading-spinner\"></span> Testing...'',
                      disabled := True\<rparr>
      in (originalText, b1, s\<lparr>fetched := fetched s @ replicate 5 ''/api/simulate-work''\<rparr>))"

definition stressTest_resume ::
    "string \<Rightarrow> settled list \<Rightarrow> control \<Rightarrow> page \<Rightarrow> control \<times> page" where
  "stressTest_resume originalText fetches button s =
     (let s1 = (case promiseAll fetches of
                  Fulfilled \<Rightarrow> showToast ''CPU stress test completed!'' ''warning'' s
                | Rejected \<Rightarrow> showToast ''Stress test failed'' ''error'' s)
      in (button\<lparr>innerHTML := originalText, disabled := False\<rparr>, s1))"

definition stressTest :: "settled list \<Rightarrow> control \<Rightarrow> page \<Rightarrow> control \<times> page" where
  "stressTest fetches button s =
     (case stressTest_begin button s of
        (originalText, b1, s1) \<Rightarrow> stressTest_resume originalText fetches b1 s1)"

text \<open>
  \<^verbatim>\<open>
  async function memoryTest() {
      showToast('Memory usage will increase temporarily', 'info');
      const tempData = new Array(100000).fill('test data for memory usage simulation');
      setTimeout(() => {
          tempData.length = 0; // Clear the array
          showToast('Memory test completed', 'success');
      }, 3000);
  }
  \<close>
  The handler has no await and never reads \<^verbatim>\<open>event.target\<close>. The temporary array
  lives in the timer's closure, which records its length.
\<close>

definition memoryTest :: "control \<Rightarrow> page \<Rightarrow> control \<times> page" where
  "memoryTest button s =
     (let s1 = showToast ''Memory usage will increase temporarily'' ''info'' s
      in (button, s1\<lparr>timers := timers s1 @ [(3000, ReleaseTempData 100000)]\<rparr>))"

text \<open>What a timer does when it fires (the refresh then waits for its reply).\<close>

fun fire :: "callback \<Rightarrow> page \<Rightarrow> page" where
  "fire RefreshDashboard s = updateEnhancedDashboard_begin s"
| "fire (ReleaseTempData n) s = showToast ''Memory test completed'' ''success'' s"

definition refreshMetrics :: "page \<Rightarrow> page" where
  "refreshMetrics s = showToast ''All metrics refreshed!'' ''info'' (updateEnhancedDashboard_begin s)"

subsection \<open>Clearing and the time range\<close>

text \<open>
  \<^verbatim>\<open>
  function clearData() {
      systemHistory.length = 0;
      if (performanceChart) {
          performanceChart.data.labels = [];
          performanceChart.data.datasets.forEach(dataset => dataset.data = []);
          performanceChart.update();
      }
      if (appPerformanceChart) { ... the same ... }
      if (networkChart) { ... the same ... }
      showToast('Chart data cleared!', 'info');
  }
  \<close>
\<close>

definition clearChart :: "chart \<Rightarrow> chart" where
  "clearChart c = c\<lparr>labels := [], datasets := map (\<lambda>dataset. []) (datasets c)\<rparr>"

definition clearData :: "page \<Rightarrow> page" where
  "clearData s =
     (let s1 = s\<lparr>systemHistory := []\<rparr>;
          s2 = (case performanceChart s1 of
                  None \<Rightarrow> s1
                | Some c \<Rightarrow> s1\<lparr>performanceChart := Some (clearChart c)\<rparr>);
          s3 = (case appPerformanceChart s2 of
                  None \<Rightarrow> s2
                | Some c \<Rightarrow> s2\<lparr>appPerformanceChart := Some (clearChart c)\<rparr>);
          s4 = (case networkChart s3 of
                  None \<Rightarrow> s3
                | Some c \<Rightarrow> s3\<lparr>networkChart := Some (clearChart c)\<rparr>)
      in showToast ''Chart data cleared!'' ''info'' s4)"

text \<open>
  \<^verbatim>\<open>
  function updateChartTimeRange() {
      switch(timeRange) {
          case '1m': maxHistoryPoints = 20; break;
          case '5m': maxHistoryPoints = 50; break;
          case '15m': maxHistoryPoints = 150; break;
      }
      if (systemHistory.length > maxHistoryPoints) {
          systemHistory = systemHistory.slice(-maxHistoryPoints);
      }
      showToast(`Time range set to ${timeRange}`, 'info');
  }
  \<close>
  \<^verbatim>\<open>timeRange\<close> is a free variable of the script: \<open>None\<close> when no such binding
  exists (reading it throws a ReferenceError), otherwise the text of its value. The
  \<^verbatim>\<open>switch\<close> compares with \<^verbatim>\<open>===\<close>, so only the three strings select a case.
  \<^verbatim>\<open>slice(-n)\<close> keeps the last \<open>n\<close> entries, and everything when \<open>n\<close> is 0
  (\<^verbatim>\<open>-0\<close> is not negative).
\<close>

definition sliceLast :: "nat \<Rightarrow> 'a list \<Rightarrow> 'a list" where
  "sliceLast n xs = (if n = 0 then xs else drop (length xs - n) xs)"

definition updateChartTimeRange :: "string option \<Rightarrow> page \<Rightarrow> page outcome" where
  "updateChartTimeRange ambient s =
     (case ambient of
        None \<Rightarrow> Thrown s
      | Some timeRange \<Rightarrow>
          (let s1 = (if timeRange = ''1m'' then s\<lparr>maxHistoryPoints := 20\<rparr>
                     else if timeRange = ''5m'' then s\<lparr>maxHistoryPoints := 50\<rparr>
                     else if timeRange = ''15m'' then s\<lparr>maxHistoryPoints := 150\<rparr>
                     else s);
               s2 = (if length (systemHistory s1) > maxHistoryPoints s1
                     then s1\<lparr>systemHistory := sliceLast (maxHistoryPoints s1) (systemHistory s1)\<rparr>
                     else s1)
           in Done (showToast (''Time range set to '' @ timeRange) ''info'' s2)))"

subsection \<open>Reachable states\<close>

text \<open>
  The states the page can be in: the state at load, and the state after any handler,
  continuation or timer has run from such a state, with any input.
\<close>

inductive reachable :: "page \<Rightarrow> bool" where
  at_load: "reachable (loaded els)"
| after_initialize: "reachable s \<Longrightarrow> reachable (initializeEnhancedDashboard s)"
| after_refresh_begin: "reachable s \<Longrightarrow> reachable (updateEnhancedDashboard_begin s)"
| after_refresh: "reachable s \<Longrightarrow> reachable (updateEnhancedDashboard fmt r now s)"
| after_traffic_begin:
    "reachable s \<Longrightarrow> reachable (snd (snd (generateTraffic_begin count button s)))"
| after_traffic_resume:
    "reachable s \<Longrightarrow> reachable (snd (generateTraffic_resume count originalText fetches button s))"
| after_work_begin: "reachable s \<Longrightarrow> reachable (snd (snd (simulateWork_begin button s)))"
| after_work_resume:
    "reachable s \<Longrightarrow> reachable (snd (simulateWork_resume originalText w button s))"
| after_stress_begin: "reachable s \<Longrightarrow> reachable (snd (snd (stressTest_begin button s)))"
| after_stress_resume:
    "reachable s \<Longrightarrow> reachable (snd (stressTest_resume originalText fetches button s))"
| after_memoryTest: "reachable s \<Longrightarrow> reachable (snd (memoryTest button s))"
| after_timer: "reachable s \<Longrightarrow> reachable (fire cb s)"
| after_refreshMetrics: "reachable s \<Longrightarrow> reachable (refreshMetrics s)"
| after_clearData: "reachable s \<Longrightarrow> reachable (clearData s)"
| after_timeRange: "reachable s \<Longrightarrow> reachable (state_of (updateChartTimeRange ambient s))"

subsection \<open>Reference renderings and sample data\<close>

text \<open>
  What iteration \<open>i\<close> of the traffic loop requests, read off the three statements of
  its body.
\<close>

definition requestsAt :: "nat \<Rightarrow> string list" where
  "requestsAt i =
     [''/api/health''] @ (if i mod 5 = 0 then [''/api/metrics''] else [])
       @ (if i mod 10 = 0 then [''/api/users''] else [])"

text \<open>
  The uptime rendering as the specification words it: the largest two non-zero units
  among days, hours and minutes. It is not taken from the source; it is what
  \<open>formatUptime\<close> is compared with.
\<close>

fun joinUnits :: "(nat \<times> string) list \<Rightarrow> string" where
  "joinUnits [] = []"
| "joinUnits [(v, u)] = numToString v @ u"
| "joinUnits ((v, u) # rest) = numToString v @ u @ '' '' @ joinUnits rest"

definition largestTwoNonZeroUnits :: "nat \<Rightarrow> string" where
  "largestTwoNonZeroUnits seconds =
     (let days = seconds div 86400;
          hours = (seconds mod 86400) div 3600;
          minutes = (seconds mod 3600) div 60
      in joinUnits (take 2 (filter (\<lambda>(v, u). v > 0)
           [(days, ''d''), (hours, ''h''), (minutes, ''m'')])))"

text \<open>A snapshot with the given CPU, memory and disk percentages.\<close>

definition sampleSnapshot :: "real \<Rightarrow> real \<Rightarrow> real \<Rightarrow> snapshot" where
  "sampleSnapshot c m d =
     \<lparr>system = \<lparr>cpu_percent = c, cpu_count = 4, cpu_freq_current = 2400, memory_percent = m,
                 memory_used_gb = 8, memory_total_gb = 16, disk_percent = d, disk_used_gb = 100,
                 disk_total_gb = 500, network_bytes_sent = 1048576, network_bytes_recv = 2097152,
                 hostname = ''host'', platform = ''Linux'', python_version = ''3.11'',
                 uptime_seconds = 90061\<rparr>,
      app = \<lparr>total_users = 3, total_requests = 42, threads_count = 8, memory_usage_mb = 120,
              app_cpu_percent = None, active_connections = 5, app_uptime_seconds = 3661\<rparr>\<rparr>"

text \<open>One decimal, rounded half up, and whole numbers printed without a fraction.\<close>

definition sampleFormat :: number_format where
  "sampleFormat =
     \<lparr>toFixed1 = (\<lambda>x. let n = nat \<lfloor>\<bar>x\<bar> * 10 + 1 / 2\<rfloor>
                      in (if x < 0 then ''-'' else []) @ numToString (n div 10) @ ''.''
                           @ numToString (n mod 10)),
      toText = (\<lambda>x. numToString (nat \<lfloor>x\<rfloor>))\<rparr>"

definition canvas :: element where
  "canvas = \<lparr>content = Text [], className = []\<rparr>"

text \<open>A document with the four canvases and the status badge, and no other target.\<close>

definition sampleDocument :: "string \<rightharpoonup> element" where
  "sampleDocument =
     [''performanceChart'' \<mapsto> canvas, ''resourceChart'' \<mapsto> canvas,
      ''appPerformanceChart'' \<mapsto> canvas, ''networkChart'' \<mapsto> canvas,
      ''status-badge'' \<mapsto> \<lparr>content = Text ''Loading'', className = ''badge''\<rparr>]"

text \<open>
  The sample page: the sample document after initialisation and one refresh with
  \<open>sampleSnapshot 40 30 10\<close> at 10:00:01.
\<close>

definition samplePage :: page where
  "samplePage =
     \<lparr>performanceChart = Some \<lparr>labels = [''10:00:01''], datasets = [[40], [30], [10], [120]]\<rparr>,
      resourceChart =
        Some \<lparr>labels = [''CPU Usage'', ''Memory Usage'', ''Disk Usage'', ''Available''],
              datasets = [[40, 30, 10, 220]]\<rparr>,
      appPerformanceChart = Some \<lparr>labels = [''10:00:01''], datasets = [[0], [5]]\<rparr>,
      networkChart = Some \<lparr>labels = [''10:00:01''], datasets = [[1048576], [2097152]]\<rparr>,
      systemHistory = [newHistoryPoint ''10:00:01'' (sampleSnapshot 40 30 10)],
      maxHistoryPoints = 50,
      elements = sampleDocument(''status-badge'' \<mapsto>
        \<lparr>content = Html ''<i class=\"bi bi-check-circle\"></i> System Healthy'',
         className = ''badge bg-success fs-6''\<rparr>),
      toastContainer = None,
      console = [DataReceived (sampleSnapshot 40 30 10)],
      timers = [],
      fetched = [''/api/dashboard-data'']\<rparr>"

section \<open>Properties\<close>

subsection \<open>Frame lemmas\<close>

lemma showToast_frame [simp]:
  "systemHistory (showToast m t s) = systemHistory s"
  "maxHistoryPoints (showToast m t s) = maxHistoryPoints s"
  "performanceChart (showToast m t s) = performanceChart s"
  "resourceChart (showToast m t s) = resourceChart s"
  "appPerformanceChart (showToast m t s) = appPerformanceChart s"
  "networkChart (showToast m t s) = networkChart s"
  "elements (showToast m t s) = elements s"
  "console (showToast m t s) = console s"
  "timers (showToast m t s) = timers s"
  "fetched (showToast m t s) = fetched s"
  by (simp_all add: showToast_def createToastContainer_def Let_def split: option.split)

lemma setBadge_frame [simp]:
  "systemHistory (setBadge h c s) = systemHistory s"
  "maxHistoryPoints (setBadge h c s) = maxHistoryPoints s"
  "performanceChart (setBadge h c s) = performanceChart s"
  "resourceChart (setBadge h c s) = resourceChart s"
  "appPerformanceChart (setBadge h c s) = appPerformanceChart s"
  "networkChart (setBadge h c s) = networkChart s"
  "toastContainer (setBadge h c s) = toastContainer s"
  "console (setBadge h c s) = console s"
  "timers (setBadge h c s) = timers s"
  "fetched (setBadge h c s) = fetched s"
  by (simp_all add: setBadge_def split: option.split)

lemma setBadge_elements:
  "elements (setBadge h c s) =
     (case elements s ''status-badge'' of
        None \<Rightarrow> elements s
      | Some b \<Rightarrow> (elements s)(''status-badge'' \<mapsto> \<lparr>content = Html h, className = c\<rparr>))"
  by (simp add: setBadge_def split: option.split)

lemma setText_frame [simp]:
  "systemHistory (setText i v s) = systemHistory s"
  "maxHistoryPoints (setText i v s) = maxHistoryPoints s"
  "performanceChart (setText i v s) = performanceChart s"
  "resourceChart (setText i v s) = resourceChart s"
  "appPerformanceChart (setText i v s) = appPerformanceChart s"
  "networkChart (setText i v s) = networkChart s"
  by (simp_all add: setText_def split: option.split)

lemma metricCards_frame [simp]:
  "systemHistory (updateEnhancedMetricCards fmt data s) = systemHistory s"
  "maxHistoryPoints (updateEnhancedMetricCards fmt data s) = maxHistoryPoints s"
  by (simp_all add: updateEnhancedMetricCards_def Let_def)

lemma systemInformation_frame [simp]:
  "systemHistory (updateSystemInformation data s) = systemHistory s"
  "maxHistoryPoints (updateSystemInformation data s) = maxHistoryPoints s"
  by (simp_all add: updateSystemInformation_def Let_def)

lemma redrawPerformance_frame [simp]:
  "systemHistory (state_of (redrawPerformance s)) = systemHistory s"
  "maxHistoryPoints (state_of (redrawPerformance s)) = maxHistoryPoints s"
  "resourceChart (state_of (redrawPerformance s)) = resourceChart s"
  by (simp_all add: redrawPerformance_def Let_def split: option.split outcome.split)

lemma redrawResource_frame [simp]:
  "systemHistory (state_of (redrawResource fmt data s)) = systemHistory s"
  "maxHistoryPoints (state_of (redrawResource fmt data s)) = maxHistoryPoints s"
  by (simp_all add: redrawResource_def Let_def split: option.split outcome.split)

lemma redrawAppPerformance_frame [simp]:
  "systemHistory (state_of (redrawAppPerformance s)) = systemHistory s"
  "maxHistoryPoints (state_of (redrawAppPerformance s)) = maxHistoryPoints s"
  "resourceChart (state_of (redrawAppPerformance s)) = resourceChart s"
  by (simp_all add: redrawAppPerformance_def Let_def split: option.split outcome.split)

lemma redrawNetwork_frame [simp]:
  "systemHistory (state_of (redrawNetwork s)) = systemHistory s"
  "maxHistoryPoints (state_of (redrawNetwork s)) = maxHistoryPoints s"
  "resourceChart (state_of (redrawNetwork s)) = resourceChart s"
  by (simp_all add: redrawNetwork_def Let_def split: option.split outcome.split)

lemma andThen_frame:
  "(\<And>t. g (state_of (f t)) = g t) \<Longrightarrow> g (state_of (andThen r f)) = g (state_of r)"
  by (cases r) (simp_all add: andThen_def)

lemma andThen_Done:
  "andThen r f = Done s' \<Longrightarrow> \<exists>s1. r = Done s1 \<and> f s1 = Done s'"
  by (cases r) (simp_all add: andThen_def)

lemma updateAllCharts_frame [simp]:
  "systemHistory (state_of (updateAllCharts fmt data s)) = systemHistory s"
  "maxHistoryPoints (state_of (updateAllCharts fmt data s)) = maxHistoryPoints s"
  by (simp_all add: updateAllCharts_def andThen_frame [where g = systemHistory]
        andThen_frame [where g = maxHistoryPoints])

lemma badge_frames [simp]:
  "systemHistory (healthyBadge s) = systemHistory s"
  "maxHistoryPoints (healthyBadge s) = maxHistoryPoints s"
  "systemHistory (dashboardCatch s) = systemHistory s"
  "maxHistoryPoints (dashboardCatch s) = maxHistoryPoints s"
  by (simp_all add: healthyBadge_def dashboardCatch_def connectionErrorBadge_def)

lemma setup_frames [simp]:
  "systemHistory (setupEnhancedPerformanceChart s) = systemHistory s"
  "maxHistoryPoints (setupEnhancedPerformanceChart s) = maxHistoryPoints s"
  "systemHistory (setupEnhancedResourceChart s) = systemHistory s"
  "maxHistoryPoints (setupEnhancedResourceChart s) = maxHistoryPoints s"
  "systemHistory (setupAppPerformanceChart s) = systemHistory s"
  "maxHistoryPoints (setupAppPerformanceChart s) = maxHistoryPoints s"
  "systemHistory (setupNetworkChart s) = systemHistory s"
  "maxHistoryPoints (setupNetworkChart s) = maxHistoryPoints s"
  by (simp_all add: setupEnhancedPerformanceChart_def setupEnhancedResourceChart_def
        setupAppPerformanceChart_def setupNetworkChart_def split: option.split)

subsection \<open>The sample page\<close>

text \<open>
  The sample page is the state after loading the sample document, initialising the
  dashboard and completing one refresh; in particular it is reachable.
\<close>

lemma setText_missing: "elements s i = None \<Longrightarrow> setText i v s = s"
  by (simp add: setText_def)

lemma sampleDocument_keys:
  "sampleDocument i =
     (if i = ''status-badge'' then Some \<lparr>content = Text ''Loading'', className = ''badge''\<rparr>
      else if i \<in> {''performanceChart'', ''resourceChart'', ''appPerformanceChart'', ''networkChart''}
      then Some canvas else None)"
  by (simp add: sampleDocument_def)

lemma init_eval:
  "initializeEnhancedDashboard (loaded sampleDocument) =
     \<lparr>performanceChart = Some \<lparr>labels = [], datasets = [[], [], [], []]\<rparr>,
      resourceChart =
        Some \<lparr>labels = [''CPU Usage'', ''Memory Usage'', ''Disk Usage'', ''Available''],
              datasets = [[0, 0, 0, 100]]\<rparr>,
      appPerformanceChart = Some \<lparr>labels = [], datasets = [[], []]\<rparr>,
      networkChart = Some \<lparr>labels = [], datasets = [[], []]\<rparr>,
      systemHistory = [], maxHistoryPoints = 50, elements = sampleDocument,
      toastContainer = None, console = [], timers = [],
      fetched = [''/api/dashboard-data'']\<rparr>"
  by (simp add: initializeEnhancedDashboard_def loaded_def setupEnhancedPerformanceChart_def
        setupEnhancedResourceChart_def setupAppPerformanceChart_def setupNetworkChart_def
        updateEnhancedDashboard_begin_def sampleDocument_keys)

lemma cards_eval:
  "elements s = sampleDocument \<Longrightarrow> updateEnhancedMetricCards fmt data s = s"
  by (simp add: updateEnhancedMetricCards_def Let_def setText_missing sampleDocument_keys)

lemma info_eval:
  "elements s = sampleDocument \<Longrightarrow> updateSystemInformation data s = s"
  by (simp add: updateSystemInformation_def Let_def setText_missing sampleDocument_keys)

lemma charts_eval:
  "updateAllCharts fmt (sampleSnapshot 40 30 10)
     \<lparr>performanceChart = Some \<lparr>labels = [], datasets = [[], [], [], []]\<rparr>,
      resourceChart =
        Some \<lparr>labels = [''CPU Usage'', ''Memory Usage'', ''Disk Usage'', ''Available''],
              datasets = [[0, 0, 0, 100]]\<rparr>,
      appPerformanceChart = Some \<lparr>labels = [], datasets = [[], []]\<rparr>,
      networkChart = Some \<lparr>labels = [], datasets = [[], []]\<rparr>,
      systemHistory = [newHistoryPoint ''10:00:01'' (sampleSnapshot 40 30 10)],
      maxHistoryPoints = 50, elements = sampleDocument,
      toastContainer = None, console = [DataReceived (sampleSnapshot 40 30 10)], timers = [],
      fetched = [''/api/dashboard-data'']\<rparr>
   = Done (samplePage\<lparr>elements := sampleDocument\<rparr>)"
  by (simp add: updateAllCharts_def andThen_def redrawPerformance_def redrawResource_def
        redrawAppPerformance_def redrawNetwork_def samplePage_def setText_missing
        sampleDocument_keys newHistoryPoint_def sampleSnapshot_def)

lemma samplePage_run:
  "updateEnhancedDashboard fmt (Json (sampleSnapshot 40 30 10)) ''10:00:01''
     (initializeEnhancedDashboard (loaded sampleDocument)) = samplePage"
proof -
  have "healthyBadge (samplePage\<lparr>elements := sampleDocument\<rparr>) = samplePage"
    by (simp add: healthyBadge_def setBadge_def samplePage_def sampleDocument_keys)
  then show ?thesis
    by (simp add: updateEnhancedDashboard_def init_eval cards_eval info_eval
          storeSystemHistory_def charts_eval)
qed

lemma samplePage_reachable: "reachable samplePage"
  using reachable.after_refresh [OF reachable.after_initialize [OF reachable.at_load],
      of sampleFormat "Json (sampleSnapshot 40 30 10)" "''10:00:01''" sampleDocument]
  by (simp add: samplePage_run)

subsection \<open>The history buffer\<close>

lemma recordAll_snoc:
  "recordAll (xs @ [(now, data)]) s = storeSystemHistory now data (recordAll xs s)"
  by (induction xs arbitrary: s) auto

lemma storeSystemHistory_bound [simp]:
  "maxHistoryPoints (storeSystemHistory now data s) = maxHistoryPoints s"
  by (simp add: storeSystemHistory_def Let_def)

lemma recordAll_bound [simp]: "maxHistoryPoints (recordAll xs s) = maxHistoryPoints s"
  by (induction xs arbitrary: s) auto

lemma storeSystemHistory_history:
  "systemHistory (storeSystemHistory now data s) =
     (if length (systemHistory s) + 1 > maxHistoryPoints s
      then shift (systemHistory s @ [newHistoryPoint now data])
      else systemHistory s @ [newHistoryPoint now data])"
  by (simp add: storeSystemHistory_def Let_def)

lemma storeSystemHistory_length:
  "length (systemHistory s) \<le> maxHistoryPoints s \<Longrightarrow>
   length (systemHistory (storeSystemHistory now data s)) \<le> maxHistoryPoints s"
  by (cases "systemHistory s") (auto simp: storeSystemHistory_def Let_def shift_def)

lemma recordAll_history:
  "systemHistory s = [] \<Longrightarrow>
   systemHistory (recordAll xs s) =
     map (\<lambda>(now, data). newHistoryPoint now data) (drop (length xs - maxHistoryPoints s) xs)"
proof (induction xs rule: rev_induct)
  case Nil
  then show ?case by simp
next
  case (snoc x xs)
  obtain now data where x: "x = (now, data)" by (cases x)
  let ?B = "maxHistoryPoints s"
  let ?f = "\<lambda>(now, data). newHistoryPoint now data"
  have ih: "systemHistory (recordAll xs s) = map ?f (drop (length xs - ?B) xs)"
    using snoc by simp
  show ?case
  proof (cases "length xs < ?B")
    case True
    then show ?thesis
      by (simp add: x recordAll_snoc storeSystemHistory_history ih)
  next
    case False
    then have len: "length (map ?f (drop (length xs - ?B) xs)) = ?B" by simp
    show ?thesis
    proof (cases "?B = 0")
      case True
      then show ?thesis
        by (simp add: x recordAll_snoc storeSystemHistory_history ih shift_def)
    next
      case nz: False
      with False have "drop (length xs - ?B) xs \<noteq> []" by simp
      then obtain y ys where d: "drop (length xs - ?B) xs = y # ys"
        by (cases "drop (length xs - ?B) xs") auto
      have "drop (Suc (length xs) - ?B) xs = ys"
        using False nz d by (metis Suc_diff_le drop_Suc linorder_not_less list.sel(3) tl_drop)
      moreover have "Suc (length ys) = ?B"
        using len d by simp
      ultimately show ?thesis using False nz d
        by (simp add: x recordAll_snoc storeSystemHistory_history ih shift_def Suc_diff_le)
    qed
  qed
qed

text \<open>
  C1. Starting from an empty buffer with bound \<open>B = maxHistoryPoints\<close>, after recording
  any sequence of \<open>N\<close> snapshots with \<open>storeSystemHistory\<close> the buffer holds the points of
  the last \<open>min N B\<close> snapshots, in the order they were recorded (the oldest are the ones
  evicted), and at no moment on the way is the buffer longer than \<open>B\<close>.
\<close>

theorem history_bounded_fifo:
  assumes "systemHistory s = []"
  shows "systemHistory (recordAll xs s) =
           map (\<lambda>(now, data). newHistoryPoint now data) (drop (length xs - maxHistoryPoints s) xs)
         \<and> length (systemHistory (recordAll xs s)) = min (length xs) (maxHistoryPoints s)
         \<and> (\<forall>k. length (systemHistory (recordAll (take k xs) s)) \<le> maxHistoryPoints s)"
  using assms by (auto simp: recordAll_history)

theorem history_bounded_fifo_witness:
  "map timestamp (systemHistory
     (recordAll [(''10:00:01'', sampleSnapshot 10 20 30), (''10:00:02'', sampleSnapshot 40 30 10),
                 (''10:00:03'', sampleSnapshot 100 100 100)]
        ((loaded Map.empty)\<lparr>maxHistoryPoints := 2\<rparr>)))
   = [''10:00:02'', ''10:00:03'']
   \<and> map cpu (systemHistory
     (recordAll [(''10:00:01'', sampleSnapshot 10 20 30), (''10:00:02'', sampleSnapshot 40 30 10),
                 (''10:00:03'', sampleSnapshot 100 100 100)]
        ((loaded Map.empty)\<lparr>maxHistoryPoints := 2\<rparr>)))
   = [40, 100]"
  using history_bounded_fifo [of "(loaded Map.empty)\<lparr>maxHistoryPoints := 2\<rparr>"
      "[(''10:00:01'', sampleSnapshot 10 20 30), (''10:00:02'', sampleSnapshot 40 30 10),
        (''10:00:03'', sampleSnapshot 100 100 100)]"]
  by (simp add: loaded_def newHistoryPoint_def sampleSnapshot_def)

subsection \<open>The buffer never outgrows its bound\<close>

lemma updateEnhancedDashboard_bounded:
  assumes "length (systemHistory s) \<le> maxHistoryPoints s"
  shows "length (systemHistory (updateEnhancedDashboard fmt r now s))
           \<le> maxHistoryPoints (updateEnhancedDashboard fmt r now s)"
proof (cases r)
  case (Json data)
  define s3 where
    "s3 = updateSystemInformation data
            (updateEnhancedMetricCards fmt data (s\<lparr>console := console s @ [DataReceived data]\<rparr>))"
  define s4 where "s4 = storeSystemHistory now data s3"
  have "length (systemHistory s3) \<le> maxHistoryPoints s3"
    using assms by (simp add: s3_def)
  then have b4: "length (systemHistory s4) \<le> maxHistoryPoints s4"
    unfolding s4_def by (simp add: storeSystemHistory_length)
  have u: "updateEnhancedDashboard fmt r now s =
             (case updateAllCharts fmt data s4 of
                Done s5 \<Rightarrow> healthyBadge s5 | Thrown s5 \<Rightarrow> dashboardCatch s5)"
    by (simp add: Json updateEnhancedDashboard_def Let_def s4_def s3_def)
  have "systemHistory (updateEnhancedDashboard fmt r now s) = systemHistory s4
        \<and> maxHistoryPoints (updateEnhancedDashboard fmt r now s) = maxHistoryPoints s4"
    using updateAllCharts_frame [of fmt data s4]
    by (cases "updateAllCharts fmt data s4") (simp_all add: u)
  with b4 show ?thesis by simp
qed (simp_all add: assms updateEnhancedDashboard_def)

lemma clearData_bounded:
  "length (systemHistory (clearData s)) \<le> maxHistoryPoints (clearData s)"
  by (simp add: clearData_def Let_def split: option.split)

lemma updateChartTimeRange_bounded:
  "length (systemHistory s) \<le> maxHistoryPoints s \<Longrightarrow>
   length (systemHistory (state_of (updateChartTimeRange ambient s)))
     \<le> maxHistoryPoints (state_of (updateChartTimeRange ambient s))"
  by (cases ambient) (auto simp: updateChartTimeRange_def Let_def sliceLast_def)

lemma reachable_history_bounded:
  "reachable s \<Longrightarrow> length (systemHistory s) \<le> maxHistoryPoints s"
proof (induction rule: reachable.induct)
  case (at_load els)
  show ?case by (simp add: loaded_def)
next
  case (after_initialize s)
  then show ?case
    by (simp add: initializeEnhancedDashboard_def updateEnhancedDashboard_begin_def)
next
  case (after_refresh_begin s)
  then show ?case by (simp add: updateEnhancedDashboard_begin_def)
next
  case (after_refresh s fmt r now)
  then show ?case by (simp add: updateEnhancedDashboard_bounded)
next
  case (after_traffic_begin s count button)
  then show ?case by (simp add: generateTraffic_begin_def Let_def)
next
  case (after_traffic_resume s count originalText fetches button)
  then show ?case
    by (simp add: generateTraffic_resume_def Let_def split: settled.split)
next
  case (after_work_begin s button)
  then show ?case by (simp add: simulateWork_begin_def Let_def)
next
  case (after_work_resume s originalText w button)
  then show ?case by (simp add: simulateWork_resume_def Let_def split: reply.split)
next
  case (after_stress_begin s button)
  then show ?case by (simp add: stressTest_begin_def Let_def)
next
  case (after_stress_resume s originalText fetches button)
  then show ?case by (simp add: stressTest_resume_def Let_def split: settled.split)
next
  case (after_memoryTest s button)
  then show ?case by (simp add: memoryTest_def Let_def)
next
  case (after_timer s cb)
  then show ?case by (cases cb) (simp_all add: updateEnhancedDashboard_begin_def)
next
  case (after_refreshMetrics s)
  then show ?case by (simp add: refreshMetrics_def updateEnhancedDashboard_begin_def)
next
  case (after_clearData s)
  show ?case by (rule clearData_bounded)
next
  case (after_timeRange s ambient)
  then show ?case by (simp add: updateChartTimeRange_bounded)
qed

subsection \<open>Clearing\<close>

text \<open>
  C2, as stated (all four charts are emptied), fails: after \<open>clearData\<close> the resource
  chart of the sample page still has its four labels and its four values.
\<close>

theorem clearData_resource_counterexample:
  "\<exists>c. resourceChart (clearData samplePage) = Some c
       \<and> length (labels c) = 4 \<and> map length (datasets c) = [4]"
  by (simp add: clearData_def samplePage_def Let_def)

text \<open>
  C2, amended. \<open>clearData\<close> empties the history buffer and, for each of the performance,
  app-performance and network charts that exists, sets the label array and the data array
  of every dataset to length 0 (the datasets themselves stay); the resource chart is left
  as it was.
\<close>

theorem clearData_clears:
  "systemHistory (clearData s) = []
   \<and> performanceChart (clearData s) = map_option clearChart (performanceChart s)
   \<and> appPerformanceChart (clearData s) = map_option clearChart (appPerformanceChart s)
   \<and> networkChart (clearData s) = map_option clearChart (networkChart s)
   \<and> resourceChart (clearData s) = resourceChart s
   \<and> length (labels (clearChart c)) = 0
   \<and> length (datasets (clearChart c)) = length (datasets c)
   \<and> (\<forall>d \<in> set (datasets (clearChart c)). length d = 0)"
  by (auto simp: clearData_def clearChart_def Let_def split: option.split)

theorem clearData_clears_witness:
  "systemHistory (clearData samplePage) = []
   \<and> performanceChart (clearData samplePage) = Some \<lparr>labels = [], datasets = [[], [], [], []]\<rparr>
   \<and> appPerformanceChart (clearData samplePage) = Some \<lparr>labels = [], datasets = [[], []]\<rparr>
   \<and> networkChart (clearData samplePage) = Some \<lparr>labels = [], datasets = [[], []]\<rparr>"
  using clearData_clears [of samplePage "\<lparr>labels = [''10:00:01''], datasets = [[0], [5]]\<rparr>"]
  by (simp add: samplePage_def clearChart_def)

subsection \<open>A failed refresh\<close>

text \<open>
  C3. When the fetch or the parsing of its body fails, \<open>updateEnhancedDashboard\<close> leaves
  the history buffer, its bound and the four charts as they were; of the document only
  the status badge changes, to the Connection Error rendering (when the badge exists).
  Toasts, timers and issued requests are unchanged too; the error is logged to the console.
\<close>

theorem refresh_failure_frame:
  assumes "r = NetworkError \<or> r = BadJson"
  shows "systemHistory (updateEnhancedDashboard fmt r now s) = systemHistory s
         \<and> maxHistoryPoints (updateEnhancedDashboard fmt r now s) = maxHistoryPoints s
         \<and> performanceChart (updateEnhancedDashboard fmt r now s) = performanceChart s
         \<and> resourceChart (updateEnhancedDashboard fmt r now s) = resourceChart s
         \<and> appPerformanceChart (updateEnhancedDashboard fmt r now s) = appPerformanceChart s
         \<and> networkChart (updateEnhancedDashboard fmt r now s) = networkChart s
         \<and> toastContainer (updateEnhancedDashboard fmt r now s) = toastContainer s
         \<and> timers (updateEnhancedDashboard fmt r now s) = timers s
         \<and> fetched (updateEnhancedDashboard fmt r now s) = fetched s
         \<and> console (updateEnhancedDashboard fmt r now s) = console s @ [DashboardError]
         \<and> (\<forall>i. i \<noteq> ''status-badge''
               \<longrightarrow> elements (updateEnhancedDashboard fmt r now s) i = elements s i)
         \<and> elements (updateEnhancedDashboard fmt r now s) ''status-badge'' =
             map_option
               (\<lambda>statusBadge. \<lparr>content = Html ''<i class=\"bi bi-exclamation-triangle\"></i> Connection Error'',
                                className = ''badge bg-danger fs-6''\<rparr>)
               (elements s ''status-badge'')"
  using assms
  by (auto simp: updateEnhancedDashboard_def dashboardCatch_def connectionErrorBadge_def
        setBadge_elements split: option.split)

theorem refresh_failure_frame_witness:
  "systemHistory (updateEnhancedDashboard sampleFormat NetworkError ''10:00:02'' samplePage)
     = [newHistoryPoint ''10:00:01'' (sampleSnapshot 40 30 10)]
   \<and> performanceChart (updateEnhancedDashboard sampleFormat BadJson ''10:00:02'' samplePage)
     = Some \<lparr>labels = [''10:00:01''], datasets = [[40], [30], [10], [120]]\<rparr>
   \<and> elements (updateEnhancedDashboard sampleFormat NetworkError ''10:00:02'' samplePage)
        ''resourceChart'' = Some canvas
   \<and> elements (updateEnhancedDashboard sampleFormat NetworkError ''10:00:02'' samplePage)
        ''status-badge''
     = Some \<lparr>content = Html ''<i class=\"bi bi-exclamation-triangle\"></i> Connection Error'',
              className = ''badge bg-danger fs-6''\<rparr>"
  using refresh_failure_frame [of NetworkError sampleFormat "''10:00:02''" samplePage]
    refresh_failure_frame [of BadJson sampleFormat "''10:00:02''" samplePage]
  by (simp add: samplePage_def sampleDocument_def)

subsection \<open>Demo actions and their control\<close>

text \<open>
  C4, as stated (every demo action, memory test included, disables its control on
  entry), fails: \<open>memoryTest\<close> on an enabled control leaves it enabled.
\<close>

theorem memoryTest_counterexample:
  "\<not> disabled (fst (memoryTest \<lparr>innerHTML = ''Memory Test'', disabled = False\<rparr> (loaded Map.empty)))"
  by (simp add: memoryTest_def Let_def)

text \<open>
  C4, amended. Generate traffic, simulate work and stress test each save the label of
  the control and disable it on entry, and on every way out, whatever the awaited
  requests did and whatever happened to the control in between, put the saved label
  back and enable the control; a whole run returns the control as it was, enabled.
  Memory test does not touch its control.
\<close>

theorem demo_actions_restore:
  "(case generateTraffic_begin count b s of
      (originalText, b1, s1) \<Rightarrow> disabled b1 \<and> originalText = innerHTML b)
   \<and> fst (generateTraffic_resume count originalText fetches b2 s2)
       = b2\<lparr>innerHTML := originalText, disabled := False\<rparr>
   \<and> fst (generateTraffic count fetches b s) = b\<lparr>disabled := False\<rparr>
   \<and> (case simulateWork_begin b s of
      (originalText, b1, s1) \<Rightarrow> disabled b1 \<and> originalText = innerHTML b)
   \<and> fst (simulateWork_resume originalText r b2 s2)
       = b2\<lparr>innerHTML := originalText, disabled := False\<rparr>
   \<and> fst (simulateWork r b s) = b\<lparr>disabled := False\<rparr>
   \<and> (case stressTest_begin b s of
      (originalText, b1, s1) \<Rightarrow> disabled b1 \<and> originalText = innerHTML b)
   \<and> fst (stressTest_resume originalText fetches b2 s2)
       = b2\<lparr>innerHTML := originalText, disabled := False\<rparr>
   \<and> fst (stressTest fetches b s) = b\<lparr>disabled := False\<rparr>
   \<and> fst (memoryTest b s) = b"
  by (simp add: generateTraffic_begin_def generateTraffic_resume_def generateTraffic_def
        simulateWork_begin_def simulateWork_resume_def simulateWork_def
        stressTest_begin_def stressTest_resume_def stressTest_def memoryTest_def Let_def)

theorem demo_actions_restore_witness:
  "fst (simulateWork NetworkError \<lparr>innerHTML = ''Simulate Work'', disabled = False\<rparr> samplePage)
     = \<lparr>innerHTML = ''Simulate Work'', disabled = False\<rparr>
   \<and> fst (stressTest [Fulfilled, Rejected, Fulfilled, Fulfilled, Fulfilled]
        \<lparr>innerHTML = ''Stress Test'', disabled = False\<rparr> samplePage)
     = \<lparr>innerHTML = ''Stress Test'', disabled = False\<rparr>
   \<and> fst (generateTraffic 25 (replicate 33 Rejected)
        \<lparr>innerHTML = ''Generate Traffic'', disabled = False\<rparr> samplePage)
     = \<lparr>innerHTML = ''Generate Traffic'', disabled = False\<rparr>"
  using demo_actions_restore [where count = 25 and s = samplePage
      and b = "\<lparr>innerHTML = ''Generate Traffic'', disabled = False\<rparr>"
      and fetches = "replicate 33 Rejected"]
    demo_actions_restore [where s = samplePage and r = NetworkError
      and b = "\<lparr>innerHTML = ''Simulate Work'', disabled = False\<rparr>"]
    demo_actions_restore [where s = samplePage
      and b = "\<lparr>innerHTML = ''Stress Test'', disabled = False\<rparr>"
      and fetches = "[Fulfilled, Rejected, Fulfilled, Fulfilled, Fulfilled]"]
  by simp

subsection \<open>The time range\<close>

lemma sliceLast_drop: "0 < n \<Longrightarrow> sliceLast n xs = drop (length xs - n) xs"
  by (simp add: sliceLast_def)

text \<open>
  C5. With \<open>timeRange\<close> one of "1m", "5m", "15m", \<open>updateChartTimeRange\<close> sets the bound
  to 20, 50, 150 respectively and leaves in the buffer its newest
  \<open>min existingLength newBound\<close> entries. When the bound does not go down, a buffer that
  was within the old bound (as every reachable buffer is) is left unchanged, so nothing
  evicted earlier comes back.
\<close>

theorem timeRange_truncates:
  assumes "timeRange = ''1m'' \<or> timeRange = ''5m'' \<or> timeRange = ''15m''"
  shows "\<exists>s'. updateChartTimeRange (Some timeRange) s = Done s'
           \<and> maxHistoryPoints s' =
               (if timeRange = ''1m'' then 20 else if timeRange = ''5m'' then 50 else 150)
           \<and> systemHistory s' =
               drop (length (systemHistory s) - maxHistoryPoints s') (systemHistory s)
           \<and> length (systemHistory s') = min (length (systemHistory s)) (maxHistoryPoints s')
           \<and> (length (systemHistory s) \<le> maxHistoryPoints s
                \<and> maxHistoryPoints s \<le> maxHistoryPoints s'
                \<longrightarrow> systemHistory s' = systemHistory s)
           \<and> (reachable s \<and> maxHistoryPoints s \<le> maxHistoryPoints s'
                \<longrightarrow> systemHistory s' = systemHistory s)"
  using assms reachable_history_bounded [of s]
  by (auto simp: updateChartTimeRange_def Let_def sliceLast_drop)

theorem timeRange_truncates_witness:
  "updateChartTimeRange (Some ''1m'')
      (samplePage\<lparr>systemHistory :=
         map (\<lambda>i. newHistoryPoint (numToString i) (sampleSnapshot 40 30 10)) [0..<25]\<rparr>)
   = Done (showToast ''Time range set to 1m'' ''info''
      (samplePage\<lparr>maxHistoryPoints := 20,
          systemHistory :=
            map (\<lambda>i. newHistoryPoint (numToString i) (sampleSnapshot 40 30 10)) [5..<25]\<rparr>))
   \<and> systemHistory (state_of (updateChartTimeRange (Some ''15m'') (loaded sampleDocument))) = []
   \<and> maxHistoryPoints (state_of (updateChartTimeRange (Some ''15m'') (loaded sampleDocument)))
       = 150"
  using timeRange_truncates [of "''1m''" "samplePage\<lparr>systemHistory :=
      map (\<lambda>i. newHistoryPoint (numToString i) (sampleSnapshot 40 30 10)) [0..<25]\<rparr>"]
    timeRange_truncates [of "''15m''" "loaded sampleDocument"]
    reachable.at_load [of sampleDocument]
  by (simp add: updateChartTimeRange_def samplePage_def sliceLast_def drop_map loaded_def)

text \<open>
  C10. When \<open>timeRange\<close> is none of "1m", "5m", "15m" (or is not bound at all),
  \<open>updateChartTimeRange\<close> leaves the bound unchanged, and leaves the buffer unchanged
  unless it was already longer than that bound, which no reachable buffer is.
\<close>

theorem unknown_timeRange_frame:
  assumes "ambient \<noteq> Some ''1m''" and "ambient \<noteq> Some ''5m''" and "ambient \<noteq> Some ''15m''"
  shows "maxHistoryPoints (state_of (updateChartTimeRange ambient s)) = maxHistoryPoints s
         \<and> (length (systemHistory s) \<le> maxHistoryPoints s
              \<longrightarrow> systemHistory (state_of (updateChartTimeRange ambient s)) = systemHistory s)
         \<and> (reachable s
              \<longrightarrow> systemHistory (state_of (updateChartTimeRange ambient s)) = systemHistory s)
         \<and> (systemHistory (state_of (updateChartTimeRange ambient s)) \<noteq> systemHistory s
              \<longrightarrow> maxHistoryPoints s < length (systemHistory s))"
  using assms reachable_history_bounded [of s]
  by (cases ambient) (auto simp: updateChartTimeRange_def Let_def)

theorem unknown_timeRange_frame_witness:
  "maxHistoryPoints (state_of (updateChartTimeRange (Some ''30m'') samplePage)) = 50
   \<and> systemHistory (state_of (updateChartTimeRange (Some ''30m'') samplePage))
       = [newHistoryPoint ''10:00:01'' (sampleSnapshot 40 30 10)]
   \<and> systemHistory (state_of (updateChartTimeRange None samplePage))
       = [newHistoryPoint ''10:00:01'' (sampleSnapshot 40 30 10)]
   \<and> systemHistory (state_of (updateChartTimeRange (Some ''30m'') (loaded sampleDocument))) = []"
  using unknown_timeRange_frame [of "Some ''30m''" samplePage]
    unknown_timeRange_frame [of None samplePage]
    unknown_timeRange_frame [of "Some ''30m''" "loaded sampleDocument"]
    reachable.at_load [of sampleDocument] samplePage_reachable
  by (simp add: samplePage_def loaded_def)

subsection \<open>Uptime\<close>

text \<open>
  C6, as stated (the largest two non-zero units, never a zero-valued unit), fails: one
  day and one minute is shown as "1d 0h", where the largest two non-zero units are
  "1d 1m".
\<close>

theorem formatUptime_counterexample:
  "formatUptime 86460 = ''1d 0h'' \<and> largestTwoNonZeroUnits 86460 = ''1d 1m''"
  by (simp add: formatUptime_def largestTwoNonZeroUnits_def numToString.simps digit_def)

text \<open>
  C6, amended. For every whole number of seconds \<open>formatUptime\<close> shows days and hours
  when there is at least a day, hours and minutes when there is at least an hour but
  less than a day, and minutes alone otherwise; the second unit, and minutes alone, are
  shown also when zero. The result is the largest two non-zero units whenever the units
  it shows are non-zero.
\<close>

theorem formatUptime_shape:
  "formatUptime n =
     (if 86400 \<le> n
      then numToString (n div 86400) @ ''d '' @ numToString (n mod 86400 div 3600) @ ''h''
      else if 3600 \<le> n
      then numToString (n div 3600) @ ''h '' @ numToString (n mod 3600 div 60) @ ''m''
      else numToString (n div 60) @ ''m'')
   \<and> ((86400 \<le> n \<and> 3600 \<le> n mod 86400) \<or> (n < 86400 \<and> 3600 \<le> n \<and> 60 \<le> n mod 3600)
        \<or> (n < 3600 \<and> 60 \<le> n)
       \<longrightarrow> formatUptime n = largestTwoNonZeroUnits n)"
  by (auto simp: formatUptime_def largestTwoNonZeroUnits_def Let_def div_greater_zero_iff)

theorem formatUptime_shape_witness:
  "formatUptime 90061 = largestTwoNonZeroUnits 90061 \<and> formatUptime 90061 = ''1d 1h''
   \<and> formatUptime 86460 = ''1d 0h'' \<and> formatUptime 3600 = ''1h 0m'' \<and> formatUptime 59 = ''0m''"
  using formatUptime_shape [of 90061] formatUptime_shape [of 86460]
    formatUptime_shape [of 3600] formatUptime_shape [of 59]
  by (simp add: numToString.simps digit_def largestTwoNonZeroUnits_def)

text \<open>
  C7. \<open>formatUptime\<close> returns "0m" for input 0, "1m" for input 65, "1h 1m" for input
  3661, and "1d 1h" for input 90061.
\<close>

theorem formatUptime_examples:
  "formatUptime 0 = ''0m'' \<and> formatUptime 65 = ''1m'' \<and>
   formatUptime 3661 = ''1h 1m'' \<and> formatUptime 90061 = ''1d 1h''"
  by (simp add: formatUptime_def numToString.simps digit_def)

subsection \<open>Traffic generation\<close>

lemma trafficLoop_eq:
  "trafficLoop i count promises = promises @ concat (map requestsAt [i..<count])"
proof (induction i count promises rule: trafficLoop.induct)
  case (1 i count promises)
  show ?case
  proof (cases "i < count")
    case True
    define p3 where "p3 = promises @ requestsAt i"
    have p3: "(let p1 = promises @ [''/api/health''];
                   p2 = (if i mod 5 = 0 then p1 @ [''/api/metrics''] else p1)
               in (if i mod 10 = 0 then p2 @ [''/api/users''] else p2)) = p3"
      by (simp add: p3_def requestsAt_def)
    have "trafficLoop i count promises = trafficLoop (i + 1) count p3"
      using True p3 by (subst trafficLoop.simps) (simp add: Let_def)
    also have "\<dots> = p3 @ concat (map requestsAt [i + 1..<count])"
      using "1.IH" [OF True refl refl refl] p3 by (simp add: Let_def)
    finally show ?thesis
      using True by (simp add: upt_conv_Cons p3_def)
  next
    case False
    then show ?thesis
      by (subst trafficLoop.simps) simp
  qed
qed

lemma count_health:
  "length (filter (\<lambda>u. u = ''/api/health'') (concat (map requestsAt [0..<n]))) = n"
  by (induction n) (simp_all add: requestsAt_def)

lemma count_metrics:
  "length (filter (\<lambda>u. u = ''/api/metrics'') (concat (map requestsAt [0..<n])))
     = length (filter (\<lambda>i. i mod 5 = 0) [0..<n])"
  by (induction n) (simp_all add: requestsAt_def)

lemma count_users:
  "length (filter (\<lambda>u. u = ''/api/users'') (concat (map requestsAt [0..<n])))
     = length (filter (\<lambda>i. i mod 10 = 0) [0..<n])"
  by (induction n) (simp_all add: requestsAt_def)

lemma count_multiples_5:
  "length (filter (\<lambda>i. i mod 5 = 0) [0..<n]) = (n + 4) div 5"
proof (induction n)
  case 0
  then show ?case by simp
next
  case (Suc n)
  have "(Suc n + 4) div 5 = (n + 4) div 5 + (if n mod 5 = 0 then 1 else 0)"
    by presburger
  with Suc show ?case by simp
qed

lemma count_multiples_10:
  "length (filter (\<lambda>i. i mod 10 = 0) [0..<n]) = (n + 9) div 10"
proof (induction n)
  case 0
  then show ?case by simp
next
  case (Suc n)
  have "(Suc n + 9) div 10 = (n + 9) div 10 + (if n mod 10 = 0 then 1 else 0)"
    by presburger
  with Suc show ?case by simp
qed

lemma multiples_below_25:
  "filter (\<lambda>i. i mod 5 = 0) [0..<25] = [0, 5, 10, 15, 20 :: nat]"
  "filter (\<lambda>i. i mod 10 = 0) [0..<25] = [0, 10, 20 :: nat]"
  by code_simp+

lemma promiseAll_caught: "promiseAll (map catchIgnore fetches) = Fulfilled"
proof (induction fetches)
  case Nil
  then show ?case by simp
next
  case (Cons f fs)
  then show ?case by (cases f) simp_all
qed

text \<open>
  C8. For every \<open>count\<close>, \<open>generateTraffic\<close> issues, before it awaits, one health GET per
  iteration \<open>i < count\<close>, one metrics GET for every \<open>i\<close> with \<open>i mod 5 = 0\<close> and one users
  GET for every \<open>i\<close> with \<open>i mod 10 = 0\<close> (for 25: 25 health, 5 metrics at 0, 5, 10, 15, 20,
  and 3 users at 0, 10, 20). All are awaited together, each with its rejection caught, so
  however the requests settle the handler takes the success path: the completion toast,
  the refresh timer of 500 ms, and the control restored.
\<close>

theorem generateTraffic_requests:
  "fetched (snd (snd (generateTraffic_begin count button s))) = fetched s @ trafficLoop 0 count []
   \<and> trafficLoop 0 count [] = concat (map requestsAt [0..<count])
   \<and> length (filter (\<lambda>u. u = ''/api/health'') (trafficLoop 0 count [])) = count
   \<and> length (filter (\<lambda>u. u = ''/api/metrics'') (trafficLoop 0 count []))
       = length (filter (\<lambda>i. i mod 5 = 0) [0..<count])
   \<and> length (filter (\<lambda>u. u = ''/api/users'') (trafficLoop 0 count []))
       = length (filter (\<lambda>i. i mod 10 = 0) [0..<count])
   \<and> length (filter (\<lambda>u. u = ''/api/metrics'') (trafficLoop 0 count [])) = (count + 4) div 5
   \<and> length (filter (\<lambda>u. u = ''/api/users'') (trafficLoop 0 count [])) = (count + 9) div 10
   \<and> length (filter (\<lambda>u. u = ''/api/health'') (trafficLoop 0 25 [])) = 25
   \<and> length (filter (\<lambda>u. u = ''/api/metrics'') (trafficLoop 0 25 [])) = 5
   \<and> length (filter (\<lambda>u. u = ''/api/users'') (trafficLoop 0 25 [])) = 3
   \<and> filter (\<lambda>i. i mod 5 = 0) [0..<25] = [0, 5, 10, 15, 20 :: nat]
   \<and> filter (\<lambda>i. i mod 10 = 0) [0..<25] = [0, 10, 20 :: nat]
   \<and> promiseAll (map catchIgnore fetches) = Fulfilled
   \<and> generateTraffic_resume count originalText fetches b1 s1 =
        (b1\<lparr>innerHTML := originalText, disabled := False\<rparr>,
         (showToast (numToString count @ '' requests completed!'') ''success'' s1)
           \<lparr>timers := timers s1 @ [(500, RefreshDashboard)]\<rparr>)"
proof -
  have a: "fetched (snd (snd (generateTraffic_begin count button s)))
             = fetched s @ trafficLoop 0 count []"
    by (simp add: generateTraffic_begin_def Let_def)
  have b: "\<And>n. trafficLoop 0 n [] = concat (map requestsAt [0..<n])"
    by (simp add: trafficLoop_eq)
  have e: "generateTraffic_resume count originalText fetches b1 s1 =
        (b1\<lparr>innerHTML := originalText, disabled := False\<rparr>,
         (showToast (numToString count @ '' requests completed!'') ''success'' s1)
           \<lparr>timers := timers s1 @ [(500, RefreshDashboard)]\<rparr>)"
    by (simp add: generateTraffic_resume_def promiseAll_caught Let_def)
  have m: "length (filter (\<lambda>u. u = ''/api/metrics'') (trafficLoop 0 25 [])) = 5"
    by (simp add: b count_metrics count_multiples_5)
  have u: "length (filter (\<lambda>u. u = ''/api/users'') (trafficLoop 0 25 [])) = 3"
    by (simp add: b count_users count_multiples_10)
  show ?thesis
    using a e m u multiples_below_25 count_multiples_5 [of count] count_multiples_10 [of count]
    by (simp only: b count_health count_metrics count_users promiseAll_caught)
qed

subsection \<open>The resource chart\<close>

lemma redrawResource_available:
  assumes "redrawResource fmt data s = Done s'" and "resourceChart s \<noteq> None"
  shows "\<exists>c'. resourceChart s' = Some c' \<and> datasets c' \<noteq> []
           \<and> datasets c' ! 0 =
               [cpu_percent (system data), memory_percent (system data), disk_percent (system data),
                max 0 (300 - (cpu_percent (system data) + memory_percent (system data)
                               + disk_percent (system data)))]"
  using assms
  by (auto simp: redrawResource_def Let_def split: option.splits outcome.splits if_splits)

text \<open>
  C9. For every snapshot, a chart redraw that completes on a page with a resource chart
  leaves that chart's data as CPU, memory, disk and
  \<open>max 0 (300 - (cpu_percent + memory_percent + disk_percent))\<close>, so the "available" slice
  is never negative: 220 for 40, 30, 10 and 0 for 100, 100, 100.
\<close>

theorem resource_available:
  assumes "updateAllCharts fmt data s = Done s'" and "resourceChart s \<noteq> None"
  shows "\<exists>c'. resourceChart s' = Some c' \<and> datasets c' \<noteq> []
           \<and> datasets c' ! 0 =
               [cpu_percent (system data), memory_percent (system data), disk_percent (system data),
                max 0 (300 - (cpu_percent (system data) + memory_percent (system data)
                               + disk_percent (system data)))]
           \<and> 0 \<le> datasets c' ! 0 ! 3"
proof -
  from assms(1) obtain s3 where n: "redrawNetwork s3 = Done s'"
    and r3: "andThen (andThen (redrawPerformance s) (redrawResource fmt data))
               redrawAppPerformance = Done s3"
    unfolding updateAllCharts_def by (blast dest: andThen_Done)
  from r3 obtain s2 where a: "redrawAppPerformance s2 = Done s3"
    and r2: "andThen (redrawPerformance s) (redrawResource fmt data) = Done s2"
    by (blast dest: andThen_Done)
  from r2 obtain s1 where p: "redrawPerformance s = Done s1"
    and r: "redrawResource fmt data s1 = Done s2"
    by (blast dest: andThen_Done)
  have "resourceChart s1 = resourceChart s"
    using redrawPerformance_frame(3) [of s] by (simp add: p)
  with assms(2) have "resourceChart s1 \<noteq> None" by simp
  from redrawResource_available [OF r this] obtain c' where
    c: "resourceChart s2 = Some c'" "datasets c' \<noteq> []"
       "datasets c' ! 0 =
          [cpu_percent (system data), memory_percent (system data), disk_percent (system data),
           max 0 (300 - (cpu_percent (system data) + memory_percent (system data)
                          + disk_percent (system data)))]"
    by blast
  have "resourceChart s3 = resourceChart s2"
    using redrawAppPerformance_frame(3) [of s2] by (simp add: a)
  moreover have "resourceChart s' = resourceChart s3"
    using redrawNetwork_frame(3) [of s3] by (simp add: n)
  ultimately have "resourceChart s' = Some c'" using c(1) by simp
  with c show ?thesis by simp
qed

theorem resource_available_witness:
  "(\<exists>c. resourceChart (state_of (updateAllCharts sampleFormat (sampleSnapshot 40 30 10) samplePage))
          = Some c \<and> datasets c ! 0 ! 3 = 220)
   \<and> (\<exists>c. resourceChart (state_of (updateAllCharts sampleFormat (sampleSnapshot 100 100 100) samplePage))
          = Some c \<and> datasets c ! 0 ! 3 = 0)"
proof -
  have r: "resourceChart samplePage \<noteq> None" by (simp add: samplePage_def)
  have d: "\<And>x y z. \<exists>s'. updateAllCharts sampleFormat (sampleSnapshot x y z) samplePage = Done s'"
    by (simp add: updateAllCharts_def andThen_def redrawPerformance_def redrawResource_def
          redrawAppPerformance_def redrawNetwork_def samplePage_def sampleDocument_def
          setText_def Let_def)
  from d obtain s1 where s1: "updateAllCharts sampleFormat (sampleSnapshot 40 30 10) samplePage = Done s1"
    by blast
  from d obtain s2 where s2: "updateAllCharts sampleFormat (sampleSnapshot 100 100 100) samplePage = Done s2"
    by blast
  have "\<exists>c. resourceChart s1 = Some c \<and> datasets c ! 0 ! 3 = 220"
    using resource_available [OF s1 r] by (auto simp: sampleSnapshot_def)
  moreover have "\<exists>c. resourceChart s2 = Some c \<and> datasets c ! 0 ! 3 = 0"
    using resource_available [OF s2 r] by (auto simp: sampleSnapshot_def)
  ultimately show ?thesis
    by (simp add: s1 s2)
qed

end
